theory Spec2Isabelle
  imports Complex_Main
begin

section \<open>Conventions of the embedding\<close>

text \<open>
  The repository holds two classes named \<open>WeatherClaimValidator\<close>: the enhanced one in
  \<open>a.py\<close> and the earlier one in \<open>WeatherClaimValidator.py\<close>. Neither is a base class of the
  other, and nothing joins them: a method that one of them calls on \<open>self\<close> and does not
  define is not found. Functions keep their names without the leading underscore.

  Python floats are modelled as \<open>real\<close>: the embedding covers the order and the arithmetic of
  finite values, not rounding. A pandas result that is NaN (the standard deviation of a single
  value, the mean of a series with no defined entry) is \<open>None\<close> of an option type.
  Dates are day numbers (\<open>int\<close>): the text of a date is \<open>strftime\<close> of its number, and
  subtracting \<open>timedelta(days=k)\<close> subtracts \<open>k\<close>.
  Every exception the code can raise is a value of \<open>py_error\<close>, on the left of a sum.
\<close>

datatype py_error = KeyError | ValueError | AttributeError | UnboundLocalError

type_synonym date = int

subsection \<open>Python strings\<close>

text \<open>
  \<open>str.lower()\<close> on the letters A to Z. A character outside ASCII is left as it is; Python
  maps such a character to a character outside ASCII too, so every comparison of a lowered
  string with an ASCII literal comes out as in Python.
\<close>

definition lower_char :: "char \<Rightarrow> char" where
  "lower_char c =
     (case map_of (zip ''ABCDEFGHIJKLMNOPQRSTUVWXYZ'' ''abcdefghijklmnopqrstuvwxyz'') c of
        Some d \<Rightarrow> d
      | None \<Rightarrow> c)"

definition lower :: "string \<Rightarrow> string" where
  "lower s = map lower_char s"

section \<open>The enhanced validator (a.py)\<close>

subsection \<open>Data\<close>

text \<open>The dictionary \<open>get_weather_data\<close> returns: one reading of one day.\<close>

record observation =
  rainfall :: real
  temperature :: real
  humidity :: real
  location :: string
  date :: date

text \<open>
  The claim dictionary. A key that is absent is \<open>None\<close>; a key that is present holds a
  string, and \<open>Days\<close> a Python integer.
\<close>

record claim_details =
  Location :: "string option"
  Date :: "date option"
  Event_Type :: "string option"
  Severity :: "string option"
  Days :: "int option"
  Date_Descriptor :: "string option"

text \<open>The constants set in \<open>__init__\<close>.\<close>

definition MIN_DROUGHT_DAYS :: int where
  "MIN_DROUGHT_DAYS = 7"

definition MONTHLY_DAYS :: int where
  "MONTHLY_DAYS = 30"

definition RAINFALL_THRESHOLD :: real where
  "RAINFALL_THRESHOLD = 0.1"

text \<open>The two shapes of the \<open>event_specific\<close> dictionary.\<close>

record rainfall_event =
  peak_daily_rainfall :: real
  rainfall_intensity :: real
  extreme_rainfall_threshold :: real
  days_above_normal :: nat
  total_period_rainfall :: real

record drought_event =
  dry_spell_length :: nat
  total_rainfall :: real
  avg_daily_rainfall :: real
  days_below_threshold :: nat
  humidity_trend :: "real option"
  temperature_anomaly :: "real option"

datatype event_specific = RainfallEvent rainfall_event | DroughtEvent drought_event

subsection \<open>The classifier\<close>

definition validate_rainfall_claim :: "rainfall_event \<Rightarrow> string \<Rightarrow> string" where
  "validate_rainfall_claim event_data severity =
     (let peak_rainfall = peak_daily_rainfall event_data;
          intensity = rainfall_intensity event_data;
          threshold = extreme_rainfall_threshold event_data
      in if peak_rainfall > threshold * 1.5 then ''Validated - Extreme Rainfall Event''
         else if peak_rainfall > threshold \<and> lower severity \<in> set [''moderate'', ''severe'']
           then ''Validated - Significant Rainfall''
         else if intensity > 10 \<and> lower severity = ''severe''
           then ''Validated - High Intensity Rainfall''
         else if peak_rainfall > threshold * 0.75 then ''Partially Validated - Moderate Rainfall''
         else ''Invalid - Rainfall Below Expected Threshold'')"

definition validate_drought_claim :: "drought_event \<Rightarrow> string \<Rightarrow> string" where
  "validate_drought_claim event_data severity =
     (let dry_spell = dry_spell_length event_data;
          total = total_rainfall event_data;
          days_below = days_below_threshold event_data
      in if dry_spell \<ge> 14 \<and> lower severity = ''severe''
           then ''Validated - Severe Drought Conditions''
         else if dry_spell \<ge> 7 \<and> days_below \<ge> 5
           then ''Validated - Moderate Drought Conditions''
         else if total < 5 \<and> dry_spell \<ge> 5
           then ''Partially Validated - Mild Drought Conditions''
         else ''Invalid - Insufficient Drought Indicators'')"

subsection \<open>Series operations of pandas\<close>

text \<open>
  A column of a frame is a list, in the order of the rows. The statistics below are applied to
  non-empty series only: a frame built from an empty list of rows has no column at all, so
  that reading a column of it raises \<open>KeyError\<close>, and every function of the validator that
  reads a column does so after the test that the frame is not empty or is modelled with that
  \<open>KeyError\<close>.
\<close>

definition mean :: "real list \<Rightarrow> real" where
  "mean xs = sum_list xs / real (length xs)"

definition median :: "real list \<Rightarrow> real" where
  "median xs =
     (let s = sort xs; n = length xs
      in if odd n then s ! (n div 2) else (s ! (n div 2 - 1) + s ! (n div 2)) / 2)"

definition series_max :: "('a::linorder) list \<Rightarrow> 'a" where
  "series_max xs = Max (set xs)"

definition series_min :: "('a::linorder) list \<Rightarrow> 'a" where
  "series_min xs = Min (set xs)"

text \<open>\<open>Series.std()\<close>: the sample standard deviation (\<open>ddof = 1\<close>), NaN for fewer than two values.\<close>

definition std :: "real list \<Rightarrow> real option" where
  "std xs =
     (if length xs < 2 then None
      else Some (sqrt (sum_list (map (\<lambda>x. (x - mean xs)\<^sup>2) xs) / real (length xs - 1))))"

text \<open>\<open>Series.quantile(q)\<close> with the default linear interpolation between order statistics.\<close>

definition quantile :: "real list \<Rightarrow> real \<Rightarrow> real" where
  "quantile xs q =
     (let s = sort xs; pos = real (length xs - 1) * q;
          lo = nat \<lfloor>pos\<rfloor>; hi = nat \<lceil>pos\<rceil>
      in s ! lo + (s ! hi - s ! lo) * (pos - real lo))"

text \<open>\<open>Series.shift()\<close>: every value moves one row down, the first row has no value.\<close>

definition shift :: "'a list \<Rightarrow> 'a option list" where
  "shift xs = (if xs = [] then [] else None # map Some (butlast xs))"

text \<open>\<open>Series.diff()\<close>: each row minus the row before; the first row has no value.\<close>

definition diff :: "real list \<Rightarrow> real option list" where
  "diff xs = map2 (\<lambda>a b. map_option (\<lambda>p. a - p) b) xs (shift xs)"

text \<open>\<open>Series.mean()\<close> of a series with missing values: they are skipped; NaN when none is left.\<close>

definition nanmean :: "real option list \<Rightarrow> real option" where
  "nanmean ys =
     (let vs = concat (map (\<lambda>y. case y of None \<Rightarrow> [] | Some v \<Rightarrow> [v]) ys)
      in if vs = [] then None else Some (mean vs))"

text \<open>
  \<open>Series.rolling(window=w).mean()\<close>: row \<open>i\<close> holds the mean of the \<open>w\<close> rows ending at \<open>i\<close>;
  the first \<open>w - 1\<close> rows, which have no complete window, hold no value.
\<close>

definition rolling_mean :: "nat \<Rightarrow> real list \<Rightarrow> real option list" where
  "rolling_mean w xs =
     map (\<lambda>i. if i + 1 < w then None else Some (mean (take w (drop (i + 1 - w) xs))))
       [0..<length xs]"

text \<open>\<open>Series.cumsum()\<close> of a boolean series: the running count of \<open>True\<close>.\<close>

fun cumsum_from :: "nat \<Rightarrow> bool list \<Rightarrow> nat list" where
  "cumsum_from k [] = []"
| "cumsum_from k (b # bs) = (k + of_bool b) # cumsum_from (k + of_bool b) bs"

definition cumsum :: "bool list \<Rightarrow> nat list" where
  "cumsum bs = cumsum_from 0 bs"

text \<open>
  \<open>values.groupby(keys).sum()\<close>: one row per distinct key, in ascending order of the keys,
  holding the sum of the values of that key.
\<close>

definition groupby_sum :: "('k::linorder) list \<Rightarrow> ('v::comm_monoid_add) list \<Rightarrow> 'v list" where
  "groupby_sum keys vals =
     map (\<lambda>k. sum_list (map snd (filter (\<lambda>p. fst p = k) (zip keys vals))))
       (sort (remdups keys))"

subsection \<open>The statistical analysis (a.py)\<close>

record rainfall_stats =
  rs_mean :: real
  rs_median :: real
  rs_max :: real
  rs_std :: "real option"
  consecutive_dry_days :: nat
  rs_total_rainfall :: real

record temperature_stats =
  ts_mean :: real
  ts_max :: real
  ts_min :: real
  ts_range :: real

text \<open>
  The analysis dictionary: \<open>NoHistoricalData\<close> is the dictionary with the single key
  \<open>analysis\<close> returned for an empty frame; otherwise the third component is the entry
  \<open>event_specific\<close>, absent for an event type that is none of rain, flood and drought.
\<close>

datatype analysis =
  NoHistoricalData
| Analysis rainfall_stats temperature_stats "event_specific option"

definition analyze_rainfall_event :: "observation list \<Rightarrow> py_error + rainfall_event" where
  "analyze_rainfall_event data =
     (if data = [] then Inl KeyError
      else
        let daily_totals = groupby_sum (map date data) (map rainfall data)
        in Inr \<lparr>peak_daily_rainfall = series_max daily_totals,
                rainfall_intensity = series_max daily_totals / 24,
                extreme_rainfall_threshold = quantile daily_totals 0.95,
                days_above_normal =
                  (case std daily_totals of
                     None \<Rightarrow> 0
                   | Some sd \<Rightarrow> length (filter (\<lambda>t. t > mean daily_totals + sd) daily_totals)),
                total_period_rainfall = sum_list daily_totals\<rparr>)"

text \<open>
  The class of a.py calls \<open>self._count_consecutive_low_rainfall_days\<close> in two places and has
  no attribute of that name: the lookup raises \<open>AttributeError\<close>, whatever the argument is.
\<close>

definition self_count_consecutive_low_rainfall_days :: "observation list \<Rightarrow> py_error + nat" where
  "self_count_consecutive_low_rainfall_days data = Inl AttributeError"

text \<open>
  The expression of the entry \<open>temperature_anomaly\<close>, on a frame with rows:
  \<open>(data['temperature'].mean() - data['temperature'].rolling(window=7).mean()).mean()\<close>.
  The difference of a number and a series is taken row by row, a row with no value staying so.
\<close>

definition temperature_anomaly_of :: "observation list \<Rightarrow> real option" where
  "temperature_anomaly_of data =
     nanmean (map (map_option (\<lambda>r. mean (map temperature data) - r))
                (rolling_mean 7 (map temperature data)))"

text \<open>
  \<open>_analyze_drought_event\<close>. The entries of the dictionary are evaluated in the order they are
  written; the first one is the call of the missing method.
\<close>

definition analyze_drought_event :: "observation list \<Rightarrow> py_error + drought_event" where
  "analyze_drought_event data =
     (case self_count_consecutive_low_rainfall_days data of
        Inl e \<Rightarrow> Inl e
      | Inr dry \<Rightarrow>
          Inr \<lparr>dry_spell_length = dry,
               total_rainfall = sum_list (map rainfall data),
               avg_daily_rainfall = mean (map rainfall data),
               days_below_threshold =
                 length (filter (\<lambda>d. rainfall d < RAINFALL_THRESHOLD) data),
               humidity_trend = nanmean (diff (map humidity data)),
               temperature_anomaly = temperature_anomaly_of data\<rparr>)"

text \<open>
  \<open>_analyze_historical_context\<close>. On a frame with rows the statistics written before the entry
  \<open>consecutive_dry_days\<close> are computed and raise nothing; the entry itself is the call of the
  missing method.
\<close>

definition analyze_historical_context ::
    "observation list \<Rightarrow> string \<Rightarrow> string \<Rightarrow> py_error + analysis" where
  "analyze_historical_context historical_data event_type severity =
     (if historical_data = [] then Inr NoHistoricalData
      else
        case self_count_consecutive_low_rainfall_days historical_data of
          Inl e \<Rightarrow> Inl e
        | Inr dry \<Rightarrow>
            let rs = \<lparr>rs_mean = mean (map rainfall historical_data),
                      rs_median = median (map rainfall historical_data),
                      rs_max = series_max (map rainfall historical_data),
                      rs_std = std (map rainfall historical_data),
                      consecutive_dry_days = dry,
                      rs_total_rainfall = sum_list (map rainfall historical_data)\<rparr>;
                ts = \<lparr>ts_mean = mean (map temperature historical_data),
                      ts_max = series_max (map temperature historical_data),
                      ts_min = series_min (map temperature historical_data),
                      ts_range = series_max (map temperature historical_data)
                                 - series_min (map temperature historical_data)\<rparr>
            in if event_type \<in> set [''rain'', ''flood''] then
                 (case analyze_rainfall_event historical_data of
                    Inl e \<Rightarrow> Inl e
                  | Inr ev \<Rightarrow> Inr (Analysis rs ts (Some (RainfallEvent ev))))
               else if event_type = ''drought'' then
                 (case analyze_drought_event historical_data of
                    Inl e \<Rightarrow> Inl e
                  | Inr ev \<Rightarrow> Inr (Analysis rs ts (Some (DroughtEvent ev))))
               else Inr (Analysis rs ts None))"


text \<open>
  \<open>_determine_claim_validity\<close>. The validators read the keys of their own shape of
  \<open>event_specific\<close>; on the other shape the first read raises \<open>KeyError\<close>.
\<close>

definition determine_claim_validity :: "analysis \<Rightarrow> string \<Rightarrow> string \<Rightarrow> py_error + string" where
  "determine_claim_validity analysis event_type severity =
     (case analysis of
        NoHistoricalData \<Rightarrow> Inr ''Unable to Validate - Insufficient Data''
      | Analysis rs ts None \<Rightarrow> Inr ''Unable to Validate - Insufficient Data''
      | Analysis rs ts (Some event_data) \<Rightarrow>
          if event_type \<in> set [''rain'', ''flood''] then
            (case event_data of
               RainfallEvent ev \<Rightarrow> Inr (validate_rainfall_claim ev severity)
             | DroughtEvent ev \<Rightarrow> Inl KeyError)
          else if event_type = ''drought'' then
            (case event_data of
               DroughtEvent ev \<Rightarrow> Inr (validate_drought_claim ev severity)
             | RainfallEvent ev \<Rightarrow> Inl KeyError)
          else Inr ''Unable to Validate - Unknown Event Type'')"

subsection \<open>Input validation, window size and the engine (a.py)\<close>

text \<open>\<open>claim_details.get(key, default)\<close> for the keys the engine reads with a default.\<close>

definition get_or :: "'a option \<Rightarrow> 'a \<Rightarrow> 'a" where
  "get_or v dflt = (case v of None \<Rightarrow> dflt | Some x \<Rightarrow> x)"

definition determine_analysis_period :: "claim_details \<Rightarrow> int" where
  "determine_analysis_period claim =
     (let event_type = lower (get_or (Event_Type claim) []);
          date_descriptor = lower (get_or (Date_Descriptor claim) [])
      in if event_type = ''drought'' then
           (if date_descriptor = ''this month'' then MONTHLY_DAYS
            else max (get_or (Days claim) MIN_DROUGHT_DAYS) MIN_DROUGHT_DAYS)
         else if date_descriptor = ''this month'' then MONTHLY_DAYS
         else if date_descriptor = ''yesterday'' then 2
         else 1)"

definition validate_claim_inputs :: "claim_details \<Rightarrow> bool \<times> string option" where
  "validate_claim_inputs claim =
     (if \<not> (Location claim \<noteq> None \<and> Date claim \<noteq> None \<and> Event_Type claim \<noteq> None
             \<and> Severity claim \<noteq> None)
      then (False, Some ''Missing required claim details'')
      else
        let event_type = lower (get_or (Event_Type claim) [])
        in if event_type = ''drought'' \<and> get_or (Days claim) 0 < MIN_DROUGHT_DAYS
           then (False, Some ''Drought claims require minimum 7 days of data'')
           else (True, None))"

text \<open>
  The result dictionary of \<open>analyze_claim\<close>. \<open>data_period\<close> holds the number \<open>n\<close> of the text
  \<open>"n days"\<close>.
\<close>

record verdict =
  validation_status :: string
  error_message :: "string option"
  historical_analysis :: "analysis option"
  data_period :: "int option"
  verdict_location :: "string option"

text \<open>
  The gateway is reached through \<open>fetch_historical_weather\<close> only, which the class of a.py
  calls and does not define: it is a parameter here, so that what is proved of the engine holds
  whatever the builder does, a builder that raises \<open>AttributeError\<close> included. The state it
  works on is the log of the gateway calls made so far, each a location and a date; the engine
  returns the log with its result.
\<close>

type_synonym gateway_log = "(string \<times> date) list"

type_synonym window_builder =
  "string \<Rightarrow> date \<Rightarrow> int \<Rightarrow> gateway_log \<Rightarrow> (py_error + observation list) \<times> gateway_log"

definition analyze_claim ::
    "window_builder \<Rightarrow> claim_details \<Rightarrow> gateway_log \<Rightarrow> (py_error + verdict) \<times> gateway_log" where
  "analyze_claim fetch_historical_weather claim calls =
     (case validate_claim_inputs claim of
        (False, msg) \<Rightarrow>
          (Inr \<lparr>validation_status = ''Invalid Claim'', error_message = msg,
                historical_analysis = None, data_period = None, verdict_location = None\<rparr>, calls)
      | (True, _) \<Rightarrow>
          let days_to_analyze = determine_analysis_period claim
          in (case (Location claim, Date claim, Event_Type claim, Severity claim) of
               (Some loc, Some d, Some event_type, Some severity) \<Rightarrow>
                 (case fetch_historical_weather loc d days_to_analyze calls of
                    (Inl e, calls') \<Rightarrow> (Inl e, calls')
                  | (Inr historical_data, calls') \<Rightarrow>
                      if historical_data = [] then
                        (Inr \<lparr>validation_status = ''Unable to Validate'',
                              error_message = Some ''No weather data available'',
                              historical_analysis = None, data_period = None,
                              verdict_location = None\<rparr>, calls')
                      else
                        (case analyze_historical_context historical_data event_type severity of
                           Inl e \<Rightarrow> (Inl e, calls')
                         | Inr analysis_result \<Rightarrow>
                             (case determine_claim_validity analysis_result event_type severity of
                                Inl e \<Rightarrow> (Inl e, calls')
                              | Inr status \<Rightarrow>
                                  (Inr \<lparr>validation_status = status, error_message = None,
                                        historical_analysis = Some analysis_result,
                                        data_period = Some days_to_analyze,
                                        verdict_location = Some loc\<rparr>, calls'))))
             | _ \<Rightarrow> (Inl KeyError, calls)))"

subsection \<open>The gateway (a.py)\<close>

text \<open>
  Characters are code points below 256, so that the degree sign is the single character
  \<open>CHR 0xB0\<close>. \<open>str.isspace\<close> on these code points.
\<close>

definition isspace :: "char \<Rightarrow> bool" where
  "isspace c = ((of_char c :: nat) \<in> set [9, 10, 11, 12, 13, 28, 29, 30, 31, 32, 133, 160])"

definition strip :: "string \<Rightarrow> string" where
  "strip s = rev (dropWhile isspace (rev (dropWhile isspace s)))"

text \<open>
  \<open>s.split(sep)\<close>: the pieces of \<open>s\<close> between the occurrences of \<open>sep\<close>, found from the left
  and not overlapping. \<open>acc\<close> holds the current piece, reversed. An empty separator raises
  \<open>ValueError\<close>.
\<close>

fun split_aux :: "string \<Rightarrow> string \<Rightarrow> string \<Rightarrow> string list" where
  "split_aux sep acc [] = [rev acc]"
| "split_aux sep acc (c # cs) =
     (if sep \<noteq> [] \<and> take (length sep) (c # cs) = sep
      then rev acc # split_aux sep [] (drop (length sep) (c # cs))
      else split_aux sep (c # acc) cs)"

definition split :: "string \<Rightarrow> string \<Rightarrow> py_error + string list" where
  "split s sep = (if sep = [] then Inl ValueError else Inr (split_aux sep [] s))"

text \<open>
  \<open>_parse_numeric_value\<close>. Python's \<open>float\<close> is the parameter \<open>pyfloat\<close>: \<open>None\<close> where it
  raises \<open>ValueError\<close>. Both \<open>ValueError\<close> and \<open>IndexError\<close> are caught and give 0.0.
\<close>

definition parse_numeric_value :: "(string \<Rightarrow> real option) \<Rightarrow> string \<Rightarrow> string \<Rightarrow> real" where
  "parse_numeric_value pyfloat value_str unit =
     (case split value_str unit of
        Inl e \<Rightarrow> 0
      | Inr [] \<Rightarrow> 0
      | Inr (piece # _) \<Rightarrow> (case pyfloat (strip piece) of None \<Rightarrow> 0 | Some x \<Rightarrow> x))"

text \<open>
  What \<open>requests.get\<close>, \<open>raise_for_status\<close> and \<open>response.json()\<close> give: a transport or status
  failure, a body that is not JSON, a JSON object (each value as \<open>str\<close> renders it), or another
  JSON value, which has no method \<open>get\<close>.
\<close>

datatype http_response =
  RequestException
| InvalidJson
| JsonObject "string \<rightharpoonup> string"
| JsonOther

definition degree_sign :: string where
  "degree_sign = [CHR 0xB0]"

definition get_weather_data ::
    "(string \<Rightarrow> real option) \<Rightarrow> (string \<Rightarrow> date \<Rightarrow> nat \<Rightarrow> http_response)
      \<Rightarrow> string \<Rightarrow> date \<Rightarrow> nat \<Rightarrow> py_error + observation option" where
  "get_weather_data pyfloat http_get loc d hour =
     (case http_get loc d hour of
        RequestException \<Rightarrow> Inr None
      | InvalidJson \<Rightarrow> Inr None
      | JsonOther \<Rightarrow> Inl AttributeError
      | JsonObject data \<Rightarrow>
          Inr (Some \<lparr>rainfall = parse_numeric_value pyfloat (get_or (data ''rainfall'') ''0'') ''mm'',
                     temperature =
                       parse_numeric_value pyfloat (get_or (data ''temperature'') ''0'') degree_sign,
                     humidity = parse_numeric_value pyfloat (get_or (data ''humidity'') ''0'') ''%'',
                     location = loc,
                     date = d\<rparr>))"

section \<open>The earlier validator (WeatherClaimValidator.py)\<close>

subsection \<open>The window builder\<close>

text \<open>
  \<open>fetch_historical_weather\<close>. The gateway \<open>get_weather_data\<close> of the class is a parameter: the
  reading it returns for a location and a date, \<open>None\<close> when it fails. Each call is added to
  the log. As the source is indented, the body of the \<open>for\<close> loop is the assignment to
  \<open>check_date\<close> alone; the call of the gateway and the \<open>append\<close> follow the loop. After a loop
  over an empty range \<open>check_date\<close> is unbound.
\<close>

definition fetch_historical_weather ::
    "(string \<Rightarrow> date \<Rightarrow> observation option) \<Rightarrow> string \<Rightarrow> date \<Rightarrow> int \<Rightarrow> gateway_log
      \<Rightarrow> (py_error + observation list) \<times> gateway_log" where
  "fetch_historical_weather gateway loc base_date days_before calls =
     (let check_date =
            fold (\<lambda>day _. Some (base_date - int day)) [0..<nat days_before] None
      in (case check_date of
            None \<Rightarrow> (Inl UnboundLocalError, calls)
          | Some cd \<Rightarrow>
              (let hourly_data = gateway loc cd;
                   calls' = calls @ [(loc, cd)]
               in (case hourly_data of
                     None \<Rightarrow> (Inr [], calls')
                   | Some h \<Rightarrow> (Inr [h\<lparr>date := cd\<rparr>], calls')))))"

subsection \<open>Consecutive dry days\<close>

text \<open>
  \<open>_count_consecutive_low_rainfall_days\<close>, a method of this class only. A boolean is summed
  as 0 or 1.
\<close>

definition count_consecutive_low_rainfall_days :: "observation list \<Rightarrow> real \<Rightarrow> py_error + nat" where
  "count_consecutive_low_rainfall_days historical_data threshold =
     (if historical_data = [] then Inl KeyError
      else
        let rainfall_series = map (\<lambda>d. rainfall d < threshold) historical_data;
            changed = map2 (\<lambda>a b. Some a \<noteq> b) rainfall_series (shift rainfall_series);
            max_consecutive_dry =
              series_max (groupby_sum (cumsum changed) (map of_bool rainfall_series))
        in Inr max_consecutive_dry)"

section \<open>The specification's own wording\<close>

text \<open>
  The definitions of this section follow the text of the specification, not the code; the
  theorems compare them with the code.
\<close>

subsection \<open>Ordered rule lists\<close>

text \<open>A rule is a condition and a verdict; the first rule whose condition holds wins.\<close>

fun first_match :: "(bool \<times> string) list \<Rightarrow> string \<Rightarrow> string" where
  "first_match [] otherwise = otherwise"
| "first_match ((condition, verdict) # rules) otherwise =
     (if condition then verdict else first_match rules otherwise)"

text \<open>A severity is named by a word whatever the case of its letters.\<close>

definition severity_is :: "string \<Rightarrow> string \<Rightarrow> bool" where
  "severity_is severity name = (lower severity = lower name)"

definition spec_rainfall_rules :: "rainfall_event \<Rightarrow> string \<Rightarrow> (bool \<times> string) list" where
  "spec_rainfall_rules m severity =
     [(peak_daily_rainfall m > extreme_rainfall_threshold m * 1.5,
         ''Validated - Extreme Rainfall Event''),
      (peak_daily_rainfall m > extreme_rainfall_threshold m
         \<and> (severity_is severity ''Moderate'' \<or> severity_is severity ''Severe''),
         ''Validated - Significant Rainfall''),
      (rainfall_intensity m > 10 \<and> severity_is severity ''Severe'',
         ''Validated - High Intensity Rainfall''),
      (peak_daily_rainfall m > extreme_rainfall_threshold m * 0.75,
         ''Partially Validated - Moderate Rainfall'')]"

definition spec_drought_rules :: "drought_event \<Rightarrow> string \<Rightarrow> (bool \<times> string) list" where
  "spec_drought_rules m severity =
     [(dry_spell_length m \<ge> 14 \<and> severity_is severity ''Severe'',
         ''Validated - Severe Drought Conditions''),
      (dry_spell_length m \<ge> 7 \<and> days_below_threshold m \<ge> 5,
         ''Validated - Moderate Drought Conditions''),
      (total_rainfall m < 5 \<and> dry_spell_length m \<ge> 5,
         ''Partially Validated - Mild Drought Conditions'')]"

subsection \<open>Window-size policy\<close>

definition requested_days :: "claim_details \<Rightarrow> int" where
  "requested_days claim = get_or (Days claim) 0"

definition is_drought_claim :: "claim_details \<Rightarrow> bool" where
  "is_drought_claim claim = (lower (get_or (Event_Type claim) []) = ''drought'')"

definition date_descriptor_is :: "claim_details \<Rightarrow> string \<Rightarrow> bool" where
  "date_descriptor_is claim phrase = (lower (get_or (Date_Descriptor claim) []) = phrase)"

definition spec_window_size :: "claim_details \<Rightarrow> int" where
  "spec_window_size claim =
     (if is_drought_claim claim \<and> date_descriptor_is claim ''this month'' then 30
      else if is_drought_claim claim then max (requested_days claim) 7
      else if date_descriptor_is claim ''this month'' then 30
      else if date_descriptor_is claim ''yesterday'' then 2
      else 1)"

subsection \<open>Longest dry run\<close>

text \<open>The maximal runs of identical value of a sequence, in order.\<close>

fun runs :: "'a list \<Rightarrow> 'a list list" where
  "runs [] = []"
| "runs (x # xs) =
     (case runs xs of
        [] \<Rightarrow> [[x]]
      | r # rs \<Rightarrow> if hd r = x then (x # r) # rs else [x] # r # rs)"

definition dry_run_lengths :: "real list \<Rightarrow> real \<Rightarrow> nat list" where
  "dry_run_lengths series threshold =
     map length (filter (\<lambda>r. hd r) (runs (map (\<lambda>x. x < threshold) series)))"

definition longest_dry_run :: "real list \<Rightarrow> real \<Rightarrow> nat" where
  "longest_dry_run series threshold = fold max (dry_run_lengths series threshold) 0"

subsection \<open>Unit-suffixed fields\<close>

text \<open>The text before the first occurrence of the unit token; all of it when there is none.\<close>

fun before_unit :: "string \<Rightarrow> string \<Rightarrow> string" where
  "before_unit unit [] = []"
| "before_unit unit (c # cs) =
     (if take (length unit) (c # cs) = unit then [] else c # before_unit unit cs)"

definition spec_field_value :: "(string \<Rightarrow> real option) \<Rightarrow> string option \<Rightarrow> string \<Rightarrow> real" where
  "spec_field_value pyfloat field unit =
     (case pyfloat (strip (before_unit unit (get_or field ''0''))) of
        None \<Rightarrow> 0
      | Some x \<Rightarrow> x)"

subsection \<open>Temperature anomaly\<close>


section \<open>Auxiliary definitions\<close>

text \<open>
  The row-by-row form of the comparison of a boolean series with its shift: a row is a change
  when it differs from the row before it; \<open>p\<close> is the row before the first one.
\<close>

fun changes_from :: "bool option \<Rightarrow> bool list \<Rightarrow> bool list" where
  "changes_from p [] = []"
| "changes_from p (b # bs) = (Some b \<noteq> p) # changes_from (Some b) bs"

text \<open>The sum of a boolean run: the number of its dry days.\<close>

definition dry_count :: "bool list \<Rightarrow> nat" where
  "dry_count r = sum_list (map of_bool r)"

subsection \<open>Example inputs\<close>

definition reading :: "date \<Rightarrow> real \<Rightarrow> real \<Rightarrow> real \<Rightarrow> observation" where
  "reading d r t h =
     \<lparr>rainfall = r, temperature = t, humidity = h, location = ''Lagos'', date = d\<rparr>"

text \<open>A gateway that answers every call with the same weather.\<close>

definition steady_gateway :: "string \<Rightarrow> date \<Rightarrow> observation option" where
  "steady_gateway loc d =
     Some \<lparr>rainfall = 1, temperature = 20, humidity = 50, location = loc, date = d\<rparr>"

definition example_claim :: "string \<Rightarrow> string \<Rightarrow> int option \<Rightarrow> claim_details" where
  "example_claim event_type severity days =
     \<lparr>Location = Some ''Lagos'', Date = Some 100, Event_Type = Some event_type,
      Severity = Some severity, Days = days, Date_Descriptor = None\<rparr>"

definition example_rainfall_stats :: rainfall_stats where
  "example_rainfall_stats =
     \<lparr>rs_mean = 20, rs_median = 10, rs_max = 50, rs_std = Some 15, consecutive_dry_days = 0,
      rs_total_rainfall = 60\<rparr>"

definition example_temperature_stats :: temperature_stats where
  "example_temperature_stats = \<lparr>ts_mean = 25, ts_max = 30, ts_min = 20, ts_range = 10\<rparr>"

text \<open>Readings of consecutive days from day \<open>d\<close> on, with the given rainfall or temperature.\<close>

fun rainfall_days :: "date \<Rightarrow> real list \<Rightarrow> observation list" where
  "rainfall_days d [] = []"
| "rainfall_days d (r # rs) = reading d r 25 60 # rainfall_days (d + 1) rs"


text \<open>
  A provider whose payload has a rainfall that is no number, and a \<open>float\<close> that reads the
  two numerals of the payload.
\<close>

definition example_float :: "string \<Rightarrow> real option" where
  "example_float s = (if s = ''18.0'' then Some 18 else if s = ''55'' then Some 55 else None)"

definition example_payload :: "string \<rightharpoonup> string" where
  "example_payload =
     [''rainfall'' \<mapsto> ''heavy mm'',
      ''temperature'' \<mapsto> ''18.0'' @ degree_sign @ ''C'',
      ''humidity'' \<mapsto> '' 55 %'']"

definition example_http_get :: "string \<Rightarrow> date \<Rightarrow> nat \<Rightarrow> http_response" where
  "example_http_get loc d hour = JsonObject example_payload"

section \<open>Properties of the classifier (a.py)\<close>

lemma lower_severity_names:
  "lower ''Severe'' = ''severe''" "lower ''Moderate'' = ''moderate''"
  by (simp_all add: lower_def lower_char_def)

text \<open>
  C1. For a rain or flood claim whose analysis holds a rainfall \<open>event_specific\<close> record, the
  classifier returns the verdict of the first matching rule of the ordered rainfall rule list
  (extreme, significant, high intensity, moderate), and the verdict
  \<open>Invalid - Rainfall Below Expected Threshold\<close> when no rule matches. In particular a peak of
  50 against a threshold of 30 with severity Severe is validated as an extreme rainfall event.
\<close>

theorem rainfall_verdict_is_first_matching_rule:
  assumes "event_type = ''rain'' \<or> event_type = ''flood''"
  shows "determine_claim_validity (Analysis rs ts (Some (RainfallEvent m))) event_type severity
           = Inr (first_match (spec_rainfall_rules m severity)
                    ''Invalid - Rainfall Below Expected Threshold'')
         \<and> (peak_daily_rainfall m = 50 \<and> extreme_rainfall_threshold m = 30
              \<longrightarrow> determine_claim_validity (Analysis rs ts (Some (RainfallEvent m)))
                      event_type ''Severe''
                    = Inr ''Validated - Extreme Rainfall Event'')"
  using assms
  by (auto simp: determine_claim_validity_def validate_rainfall_claim_def spec_rainfall_rules_def
        severity_is_def lower_severity_names Let_def)

theorem rainfall_verdict_witness:
  "(''flood'' = ''rain'' \<or> ''flood'' = ''flood'')
   \<and> determine_claim_validity
        (Analysis example_rainfall_stats example_temperature_stats
           (Some (RainfallEvent \<lparr>peak_daily_rainfall = 50, rainfall_intensity = 50 / 24,
                                 extreme_rainfall_threshold = 30, days_above_normal = 1,
                                 total_period_rainfall = 60\<rparr>)))
        ''flood'' ''Severe''
      = Inr ''Validated - Extreme Rainfall Event''"
proof -
  have h: "''flood'' = ''rain'' \<or> ''flood'' = ''flood''" by simp
  show ?thesis
    using h rainfall_verdict_is_first_matching_rule
            [OF h, of example_rainfall_stats example_temperature_stats
                "\<lparr>peak_daily_rainfall = 50, rainfall_intensity = 50 / 24,
                  extreme_rainfall_threshold = 30, days_above_normal = 1,
                  total_period_rainfall = 60\<rparr>" "''Severe''", THEN conjunct2]
    by simp
qed

text \<open>
  C2. For a drought claim whose analysis holds a drought \<open>event_specific\<close> record, the
  classifier returns the verdict of the first matching rule of the ordered drought rule list
  (severe, moderate, mild), and \<open>Invalid - Insufficient Drought Indicators\<close> when no rule
  matches. In particular a dry spell of 10 days with 6 days below the threshold and severity
  Mild fails the first rule and is validated by the second.
\<close>

theorem drought_verdict_is_first_matching_rule:
  "determine_claim_validity (Analysis rs ts (Some (DroughtEvent m))) ''drought'' severity
     = Inr (first_match (spec_drought_rules m severity)
              ''Invalid - Insufficient Drought Indicators'')
   \<and> (dry_spell_length m = 10 \<and> days_below_threshold m = 6
        \<longrightarrow> \<not> (dry_spell_length m \<ge> 14 \<and> severity_is ''Mild'' ''Severe'')
            \<and> determine_claim_validity (Analysis rs ts (Some (DroughtEvent m))) ''drought'' ''Mild''
                = Inr ''Validated - Moderate Drought Conditions'')"
  by (auto simp: determine_claim_validity_def validate_drought_claim_def spec_drought_rules_def
        severity_is_def lower_severity_names Let_def lower_def lower_char_def)

theorem drought_verdict_witness:
  "determine_claim_validity
     (Analysis example_rainfall_stats example_temperature_stats
        (Some (DroughtEvent \<lparr>dry_spell_length = 10, total_rainfall = 12, avg_daily_rainfall = 1,
                             days_below_threshold = 6, humidity_trend = None,
                             temperature_anomaly = None\<rparr>)))
     ''drought'' ''Mild''
   = Inr ''Validated - Moderate Drought Conditions''"
  using drought_verdict_is_first_matching_rule
          [of example_rainfall_stats example_temperature_stats
              "\<lparr>dry_spell_length = 10, total_rainfall = 12, avg_daily_rainfall = 1,
                days_below_threshold = 6, humidity_trend = None, temperature_anomaly = None\<rparr>"
              "''Mild''", THEN conjunct2]
  by simp




text \<open>
  With the class as it is, the analysis of a frame with rows stops at the missing method, for
  every event type.
\<close>

lemma analyze_historical_context_missing_method:
  "historical_data \<noteq> [] \<Longrightarrow>
   analyze_historical_context historical_data event_type severity = Inl AttributeError"
  by (simp add: analyze_historical_context_def self_count_consecutive_low_rainfall_days_def)

section \<open>Properties of the engine (a.py)\<close>

text \<open>
  C5. A claim that lacks one of the keys Location, Date, Event Type, Severity, and a drought
  claim that asks for fewer than 7 days, ends with the status \<open>Invalid Claim\<close> and a message
  that says why, and the log of gateway calls is returned as it was passed in, whatever the
  window builder is: no weather data is fetched.
\<close>

theorem analyze_claim_rejects_without_fetching:
  assumes "Location c = None \<or> Date c = None \<or> Event_Type c = None \<or> Severity c = None
           \<or> (is_drought_claim c \<and> requested_days c < 7)"
  shows "analyze_claim fetch c calls =
           (Inr \<lparr>validation_status = ''Invalid Claim'',
                 error_message =
                   Some (if Location c = None \<or> Date c = None \<or> Event_Type c = None
                            \<or> Severity c = None
                         then ''Missing required claim details''
                         else ''Drought claims require minimum 7 days of data''),
                 historical_analysis = None, data_period = None, verdict_location = None\<rparr>,
            calls)"
  using assms
  by (auto simp: analyze_claim_def validate_claim_inputs_def is_drought_claim_def
        requested_days_def MIN_DROUGHT_DAYS_def Let_def)

theorem analyze_claim_rejects_witness:
  "is_drought_claim (example_claim ''Drought'' ''Severe'' (Some 3))
   \<and> requested_days (example_claim ''Drought'' ''Severe'' (Some 3)) < 7
   \<and> analyze_claim (fetch_historical_weather steady_gateway)
        (example_claim ''Drought'' ''Severe'' (Some 3)) []
      = (Inr \<lparr>validation_status = ''Invalid Claim'',
              error_message = Some ''Drought claims require minimum 7 days of data'',
              historical_analysis = None, data_period = None, verdict_location = None\<rparr>,
         [])"
proof -
  have d: "is_drought_claim (example_claim ''Drought'' ''Severe'' (Some 3))"
    by (simp add: is_drought_claim_def example_claim_def get_or_def lower_def lower_char_def)
  have r: "requested_days (example_claim ''Drought'' ''Severe'' (Some 3)) < 7"
    by (simp add: requested_days_def example_claim_def get_or_def)
  have "analyze_claim (fetch_historical_weather steady_gateway)
          (example_claim ''Drought'' ''Severe'' (Some 3)) []
        = (Inr \<lparr>validation_status = ''Invalid Claim'',
                error_message = Some ''Drought claims require minimum 7 days of data'',
                historical_analysis = None, data_period = None, verdict_location = None\<rparr>,
           [])"
    using analyze_claim_rejects_without_fetching
            [of "example_claim ''Drought'' ''Severe'' (Some 3)"
                "fetch_historical_weather steady_gateway" "[]"] d r
    by (simp add: example_claim_def)
  then show ?thesis using d r by simp
qed

text \<open>
  C6. The number of days the engine analyses is the window-size policy of the specification:
  30 for a drought claim of this month, the larger of the requested days and 7 for any other
  drought claim, 30 for another claim of this month, 2 for another claim of yesterday, and 1
  otherwise. The equation holds for every claim, so in particular for every claim that passes
  the input validation.
\<close>

theorem analysis_period_is_window_policy:
  "determine_analysis_period c = spec_window_size c"
  by (simp add: determine_analysis_period_def spec_window_size_def is_drought_claim_def
        date_descriptor_is_def requested_days_def MIN_DROUGHT_DAYS_def MONTHLY_DAYS_def Let_def
        get_or_def split: option.splits)

theorem analysis_period_witness:
  "validate_claim_inputs (example_claim ''drought'' ''Severe'' (Some 10)) = (True, None)
   \<and> determine_analysis_period (example_claim ''drought'' ''Severe'' (Some 10)) = 10"
proof -
  have "spec_window_size (example_claim ''drought'' ''Severe'' (Some 10)) = 10"
    by (simp add: spec_window_size_def is_drought_claim_def date_descriptor_is_def
          requested_days_def example_claim_def get_or_def lower_def lower_char_def)
  moreover have "validate_claim_inputs (example_claim ''drought'' ''Severe'' (Some 10)) = (True, None)"
    by (simp add: validate_claim_inputs_def example_claim_def get_or_def lower_def lower_char_def
          MIN_DROUGHT_DAYS_def)
  ultimately show ?thesis
    using analysis_period_is_window_policy [of "example_claim ''drought'' ''Severe'' (Some 10)"]
    by simp
qed

section \<open>Properties of the window builder (WeatherClaimValidator.py)\<close>

text \<open>
  Whatever number of days is asked for, the builder calls the gateway once, for the oldest
  day of the span, and the window holds that day's reading at most. With no day asked for
  it stops on the unbound \<open>check_date\<close>.
\<close>

lemma fetch_historical_weather_single_call:
  assumes "days_before \<ge> 1"
  shows "fetch_historical_weather gateway loc base_date days_before calls
         = (Inr (case gateway loc (base_date - (days_before - 1)) of
                   None \<Rightarrow> []
                 | Some h \<Rightarrow> [h\<lparr>date := base_date - (days_before - 1)\<rparr>]),
            calls @ [(loc, base_date - (days_before - 1))])"
proof -
  obtain n where n: "nat days_before = Suc n"
    using assms by (cases "nat days_before") auto
  then have "days_before - 1 = int n" by linarith
  then show ?thesis using n
    by (simp add: fetch_historical_weather_def Let_def split: option.splits)
qed

lemma fetch_historical_weather_no_day:
  "days_before \<le> 0 \<Longrightarrow>
   fetch_historical_weather gateway loc base_date days_before calls = (Inl UnboundLocalError, calls)"
  by (simp add: fetch_historical_weather_def)

text \<open>
  C3. Asked for the 3 days ending at day 100, with a gateway that answers every call, the
  builder makes one call, for day 98, and returns a window of one reading, not three.
\<close>

theorem fetch_three_days_makes_one_call:
  "fetch_historical_weather steady_gateway ''Lagos'' 100 3 []
   = (Inr [\<lparr>rainfall = 1, temperature = 20, humidity = 50, location = ''Lagos'', date = 98\<rparr>],
      [(''Lagos'', 98)])"
  by (simp add: fetch_historical_weather_single_call steady_gateway_def)

section \<open>Consecutive dry days\<close>

subsection \<open>The comparison with the shifted series\<close>

lemma changed_eq_changes_from:
  "map2 (\<lambda>a b. Some a \<noteq> b) bs (p # map Some (butlast bs)) = changes_from p bs"
proof (induction bs arbitrary: p)
  case Nil
  then show ?case by simp
next
  case (Cons b bs)
  show ?case
  proof (cases bs)
    case Nil
    then show ?thesis by simp
  next
    case (Cons b' bs')
    then show ?thesis using Cons.IH[of "Some b"] by simp
  qed
qed

lemma changed_shift:
  "map2 (\<lambda>a b. Some a \<noteq> b) bs (shift bs) = changes_from None bs"
  using changed_eq_changes_from[of bs None] by (cases bs) (simp_all add: shift_def)

lemma run_ids_ge: "x \<in> set (cumsum_from k (changes_from p bs)) \<Longrightarrow> k \<le> x"
proof (induction bs arbitrary: k p)
  case Nil
  then show ?case by simp
next
  case (Cons b bs)
  then show ?case by (fastforce dest: Cons.IH)
qed

subsection \<open>Grouping by run identifier\<close>

text \<open>A row whose key is below every other key opens a group of its own.\<close>

lemma groupby_sum_new_key:
  fixes k0 :: nat and v :: nat
  assumes "\<forall>k \<in> set keys. k0 < k"
  shows "groupby_sum (k0 # keys) (v # vals) = v # groupby_sum keys vals"
proof -
  have notin: "k0 \<notin> set keys" using assms by auto
  have "\<forall>x \<in> set (sort (remdups keys)). k0 \<le> x" using assms by (auto intro: less_imp_le)
  then have srt: "sort (remdups (k0 # keys)) = k0 # sort (remdups keys)"
    using notin by (simp add: insort_is_Cons)
  have first: "filter (\<lambda>p. fst p = k0) (zip keys vals) = []"
    using notin by (auto simp: filter_empty_conv dest: set_zip_leftD)
  have rest: "map (\<lambda>k. sum_list (map snd (filter (\<lambda>p. fst p = k) (zip (k0 # keys) (v # vals)))))
                (sort (remdups keys))
              = map (\<lambda>k. sum_list (map snd (filter (\<lambda>p. fst p = k) (zip keys vals))))
                (sort (remdups keys))"
    using notin by (intro map_cong) auto
  show ?thesis
    unfolding groupby_sum_def srt using first rest by simp
qed

text \<open>A row whose key is the least key of the rows after it joins the first group.\<close>

lemma groupby_sum_same_key:
  fixes k0 :: nat and v :: nat
  assumes "k0 \<in> set keys" "\<forall>k \<in> set keys. k0 \<le> k"
  shows "\<exists>g gs. groupby_sum keys vals = g # gs
           \<and> groupby_sum (k0 # keys) (v # vals) = (v + g) # gs"
proof -
  let ?S = "sort (remdups keys)"
  have S: "sorted ?S" "distinct ?S" "set ?S = set keys" by simp_all
  then obtain s S' where sS: "?S = s # S'" using assms(1) by (cases ?S) auto
  have "s \<in> set keys" using S(3) sS by auto
  then have "k0 \<le> s" using assms(2) by blast
  moreover have "s \<le> k0" using S(1) S(3) sS assms(1) by auto
  ultimately have s: "s = k0" by simp
  have notin: "k0 \<notin> set S'" using S(2) sS s by auto
  have rd: "remdups (k0 # keys) = remdups keys" using assms(1) by simp
  have rest: "map (\<lambda>k. sum_list (map snd (filter (\<lambda>p. fst p = k) (zip (k0 # keys) (v # vals))))) S'
              = map (\<lambda>k. sum_list (map snd (filter (\<lambda>p. fst p = k) (zip keys vals)))) S'"
    using notin by (intro map_cong) auto
  show ?thesis
    unfolding groupby_sum_def rd sS s using rest by simp
qed

subsection \<open>Runs\<close>

lemma runs_nonempty: "bs \<noteq> [] \<Longrightarrow> runs bs \<noteq> []"
  by (cases bs) (auto split: list.splits)

lemma hd_hd_runs: "bs \<noteq> [] \<Longrightarrow> hd (hd (runs bs)) = hd bs"
  by (cases bs) (auto split: list.splits)

lemma runs_constant: "r \<in> set (runs bs) \<Longrightarrow> r \<noteq> [] \<and> (\<forall>x \<in> set r. x = hd r)"
proof (induction bs arbitrary: r)
  case Nil
  then show ?case by simp
next
  case (Cons b bs)
  show ?case
  proof (cases "runs bs")
    case Nil
    then show ?thesis using Cons.prems by simp
  next
    case (Cons r' rs')
    have r': "r' \<noteq> [] \<and> (\<forall>x \<in> set r'. x = hd r')" using Cons.IH[of r'] Cons by simp
    show ?thesis
    proof (cases "hd r' = b")
      case True
      then have "r = b # r' \<or> r \<in> set rs'" using Cons.prems Cons by simp
      then show ?thesis using r' True Cons.IH[of r] Cons by auto
    next
      case False
      then have "r = [b] \<or> r \<in> set (runs bs)" using Cons.prems Cons by auto
      then show ?thesis using Cons.IH[of r] by auto
    qed
  qed
qed

text \<open>The groups of the run identifiers are the runs, each summed.\<close>

lemma groupby_runs:
  "bs \<noteq> [] \<Longrightarrow>
   groupby_sum (cumsum_from k (changes_from p bs)) (map of_bool bs) = map dry_count (runs bs)"
proof (induction bs arbitrary: k p)
  case Nil
  then show ?case by simp
next
  case (Cons b bs)
  let ?k0 = "k + of_bool (Some b \<noteq> p)"
  show ?case
  proof (cases bs)
    case Nil
    then show ?thesis by (simp add: groupby_sum_def dry_count_def)
  next
    case (Cons b' bs')
    let ?keys = "cumsum_from ?k0 (changes_from (Some b) bs)"
    have IH: "groupby_sum ?keys (map of_bool bs) = map dry_count (runs bs)"
      using Cons.IH[of ?k0 "Some b"] Cons by simp
    obtain r rs where rr: "runs bs = r # rs"
      using runs_nonempty[of bs] Cons by (cases "runs bs") auto
    have hdr: "hd r = b'" using hd_hd_runs[of bs] rr Cons by simp
    have keys_hd: "?keys = (?k0 + of_bool (b' \<noteq> b))
                     # cumsum_from (?k0 + of_bool (b' \<noteq> b)) (changes_from (Some b') bs')"
      using Cons by simp
    show ?thesis
    proof (cases "b' = b")
      case True
      have in0: "?k0 \<in> set ?keys" using keys_hd True by simp
      have ge0: "\<forall>x \<in> set ?keys. ?k0 \<le> x" using run_ids_ge by blast
      obtain g :: nat and gs where g: "groupby_sum ?keys (map of_bool bs) = g # gs"
          "groupby_sum (?k0 # ?keys) (of_bool b # map of_bool bs) = (of_bool b + g) # gs"
        using groupby_sum_same_key[OF in0 ge0, where vals="map of_bool bs" and v="of_bool b"]
        by blast
      have "g = dry_count r" "gs = map dry_count rs" using g(1) IH rr by simp_all
      then show ?thesis using g(2) rr hdr True by (simp add: dry_count_def)
    next
      case False
      have "\<forall>x \<in> set ?keys. ?k0 < x"
      proof
        fix x assume "x \<in> set ?keys"
        then have "x = ?k0 + 1 \<or> x \<in> set (cumsum_from (?k0 + 1) (changes_from (Some b') bs'))"
          using keys_hd False by simp
        then show "?k0 < x" using run_ids_ge[of x "?k0 + 1" "Some b'" bs'] by auto
      qed
      then have "groupby_sum (?k0 # ?keys) ((of_bool b :: nat) # map of_bool bs)
                 = of_bool b # groupby_sum ?keys (map of_bool bs)"
        by (rule groupby_sum_new_key)
      then show ?thesis using IH rr hdr False by (simp add: dry_count_def)
    qed
  qed
qed

lemma dry_count_run:
  assumes "r \<noteq> []" "\<forall>x \<in> set r. x = hd r"
  shows "dry_count r = (if hd r then length r else 0)"
proof -
  have "map of_bool r = replicate (length r) (of_bool (hd r) :: nat)"
    using assms(2) by (simp add: map_replicate_const[symmetric] cong: map_cong)
  then show ?thesis by (simp add: dry_count_def sum_list_replicate)
qed

lemma fold_max_dry:
  assumes "\<forall>r \<in> set rs. r \<noteq> [] \<and> (\<forall>x \<in> set r. x = hd r)"
  shows "fold max (map dry_count rs) a = fold max (map length (filter hd rs)) a"
  using assms
proof (induction rs arbitrary: a)
  case Nil
  then show ?case by simp
next
  case (Cons r rs)
  have "dry_count r = (if hd r then length r else 0)" using Cons.prems dry_count_run by simp
  then show ?case using Cons by simp
qed

lemma Max_fold_nat:
  fixes xs :: "nat list"
  assumes "xs \<noteq> []"
  shows "Max (set xs) = fold max xs 0"
proof -
  have "fold max xs 0 = Max (set (0 # xs))" by (simp only: Max.set_eq_fold)
  also have "\<dots> = max 0 (Max (set xs))" using assms by simp
  finally show ?thesis by simp
qed

subsection \<open>The result\<close>

lemma count_consecutive_eq_longest_dry_run:
  assumes "historical_data \<noteq> []"
  shows "count_consecutive_low_rainfall_days historical_data threshold
         = Inr (longest_dry_run (map rainfall historical_data) threshold)"
proof -
  let ?bs = "map (\<lambda>d. rainfall d < threshold) historical_data"
  have ne: "?bs \<noteq> []" using assms by simp
  have g: "groupby_sum (cumsum (map2 (\<lambda>a b. Some a \<noteq> b) ?bs (shift ?bs))) (map of_bool ?bs)
           = map dry_count (runs ?bs)"
    unfolding cumsum_def changed_shift using groupby_runs[OF ne] .
  have "map dry_count (runs ?bs) \<noteq> []" using runs_nonempty[OF ne] by simp
  then have "Max (set (map dry_count (runs ?bs))) = fold max (map dry_count (runs ?bs)) 0"
    by (rule Max_fold_nat)
  also have "\<dots> = fold max (map length (filter hd (runs ?bs))) 0"
    using runs_constant by (intro fold_max_dry) blast
  finally have "series_max (map dry_count (runs ?bs))
                = longest_dry_run (map rainfall historical_data) threshold"
    by (simp add: series_max_def longest_dry_run_def dry_run_lengths_def comp_def)
  then show ?thesis using assms g
    by (simp add: count_consecutive_low_rainfall_days_def Let_def)
qed

lemma spec_series_dry_runs:
  "dry_run_lengths [0, 0.05, 5, 0.02, 0, 0] 0.1 = [2, 3]"
  "longest_dry_run [0, 0.05, 5, 0.02, 0, 0] 0.1 = 3"
  by (simp_all add: longest_dry_run_def dry_run_lengths_def)

lemma rainfall_of_rainfall_days: "map rainfall (rainfall_days d rs) = rs"
  by (induction rs arbitrary: d) (simp_all add: reading_def)

text \<open>
  The series of the specification has the dry days 0.0, 0.05 and, after the wet day 5.0, the
  three dry days 0.02, 0.0, 0.0: the code returns 3 for it, and the dry runs have the lengths
  2 and 3, where the claim says 2 and the lengths 2, 1, 2. On a frame with no rows the column
  is missing and the code raises \<open>KeyError\<close>; it does not return 0.
\<close>

theorem spec_series_counterexample:
  "count_consecutive_low_rainfall_days (rainfall_days 1 [0, 0.05, 5, 0.02, 0, 0]) 0.1 = Inr 3
   \<and> dry_run_lengths [0, 0.05, 5, 0.02, 0, 0] 0.1 = [2, 3]
   \<and> count_consecutive_low_rainfall_days [] 0.1 = Inl KeyError"
proof -
  have "count_consecutive_low_rainfall_days (rainfall_days 1 [0, 0.05, 5, 0.02, 0, 0]) 0.1
        = Inr (longest_dry_run (map rainfall (rainfall_days 1 [0, 0.05, 5, 0.02, 0, 0])) 0.1)"
    by (rule count_consecutive_eq_longest_dry_run) simp
  then have c: "count_consecutive_low_rainfall_days (rainfall_days 1 [0, 0.05, 5, 0.02, 0, 0]) 0.1
                = Inr 3"
    unfolding rainfall_of_rainfall_days spec_series_dry_runs .
  have e: "count_consecutive_low_rainfall_days [] 0.1 = Inl KeyError"
    by (simp add: count_consecutive_low_rainfall_days_def)
  show ?thesis using c e spec_series_dry_runs(1) by (intro conjI)
qed

text \<open>
  C4, amended. For every non-empty rainfall series, the consecutive-dry-days computation
  marks a day as dry exactly when its rainfall is below the threshold, partitions the dry/wet
  sequence into maximal runs of identical value, and returns the length of the longest dry
  run, 0 when no day is dry. In particular, for the series 0.0, 0.05, 5.0, 0.02, 0.0, 0.0 and
  the threshold 0.1 the dry run lengths are 2 and 3 and the result is 3.
\<close>

theorem count_consecutive_is_longest_dry_run:
  assumes "historical_data \<noteq> []"
  shows "count_consecutive_low_rainfall_days historical_data threshold
           = Inr (longest_dry_run (map rainfall historical_data) threshold)
         \<and> (map rainfall historical_data = [0, 0.05, 5, 0.02, 0, 0]
              \<longrightarrow> dry_run_lengths (map rainfall historical_data) 0.1 = [2, 3]
                  \<and> count_consecutive_low_rainfall_days historical_data 0.1 = Inr 3)"
  using count_consecutive_eq_longest_dry_run[OF assms] spec_series_dry_runs by simp

theorem count_consecutive_witness:
  "rainfall_days 1 [0, 0.05, 5, 0.02, 0, 0] \<noteq> []
   \<and> map rainfall (rainfall_days 1 [0, 0.05, 5, 0.02, 0, 0]) = [0, 0.05, 5, 0.02, 0, 0]
   \<and> count_consecutive_low_rainfall_days (rainfall_days 1 [0, 0.05, 5, 0.02, 0, 0]) 0.1 = Inr 3"
proof -
  have ne: "rainfall_days 1 [0, 0.05, 5, 0.02, 0, 0] \<noteq> []" by simp
  have m: "map rainfall (rainfall_days 1 [0, 0.05, 5, 0.02, 0, 0]) = [0, 0.05, 5, 0.02, 0, 0]"
    by (rule rainfall_of_rainfall_days)
  have "dry_run_lengths (map rainfall (rainfall_days 1 [0, 0.05, 5, 0.02, 0, 0])) 0.1 = [2, 3]
        \<and> count_consecutive_low_rainfall_days (rainfall_days 1 [0, 0.05, 5, 0.02, 0, 0]) 0.1
            = Inr 3"
    using count_consecutive_is_longest_dry_run[OF ne, THEN conjunct2, rule_format, OF m] .
  then have c: "count_consecutive_low_rainfall_days (rainfall_days 1 [0, 0.05, 5, 0.02, 0, 0]) 0.1
                = Inr 3"
    by (rule conjunct2)
  show ?thesis using ne m c by (intro conjI)
qed

section \<open>Properties of the gateway (a.py)\<close>

text \<open>The first piece of a split is the text before the first occurrence of the separator.\<close>

lemma split_aux_first:
  "sep \<noteq> [] \<Longrightarrow> \<exists>rest. split_aux sep acc s = (rev acc @ before_unit sep s) # rest"
proof (induction s arbitrary: acc)
  case Nil
  then show ?case by simp
next
  case (Cons c cs)
  show ?case
  proof (cases "take (length sep) (c # cs) = sep")
    case True
    then show ?thesis using Cons.prems by simp
  next
    case False
    then show ?thesis using Cons.IH[OF Cons.prems, of "c # acc"] by simp
  qed
qed

lemma parse_numeric_value_spec:
  assumes "unit \<noteq> []"
  shows "parse_numeric_value pyfloat (get_or field ''0'') unit
         = spec_field_value pyfloat field unit"
proof -
  obtain rest where
    "split_aux unit [] (get_or field ''0'') = before_unit unit (get_or field ''0'') # rest"
    using split_aux_first[OF assms, of "[]"] by auto
  then show ?thesis using assms
    by (simp add: parse_numeric_value_def split_def spec_field_value_def)
qed

text \<open>
  C7. Whenever the provider answers with a JSON object, the gateway returns a full
  observation. Each of rainfall, temperature and humidity is the number read from the text
  before its unit token, stripped, and 0.0 when that text is no number; the value of one
  field does not depend on the other two, and no error is returned.
\<close>

theorem get_weather_data_degrades_per_field:
  assumes "http_get loc d hour = JsonObject data"
  shows "get_weather_data pyfloat http_get loc d hour
         = Inr (Some \<lparr>rainfall = spec_field_value pyfloat (data ''rainfall'') ''mm'',
                      temperature = spec_field_value pyfloat (data ''temperature'') degree_sign,
                      humidity = spec_field_value pyfloat (data ''humidity'') ''%'',
                      location = loc, date = d\<rparr>)"
  using assms
  by (simp add: get_weather_data_def parse_numeric_value_spec degree_sign_def)

theorem get_weather_data_witness:
  "example_http_get ''Lagos'' 100 12 = JsonObject example_payload
   \<and> get_weather_data example_float example_http_get ''Lagos'' 100 12
      = Inr (Some \<lparr>rainfall = 0, temperature = 18, humidity = 55,
                   location = ''Lagos'', date = 100\<rparr>)"
proof -
  have h: "example_http_get ''Lagos'' 100 12 = JsonObject example_payload"
    by (simp add: example_http_get_def)
  have r: "spec_field_value example_float (example_payload ''rainfall'') ''mm'' = 0"
    by (simp add: spec_field_value_def example_float_def example_payload_def get_or_def
          strip_def isspace_def)
  have t: "spec_field_value example_float (example_payload ''temperature'') degree_sign = 18"
    by (simp add: spec_field_value_def example_float_def example_payload_def get_or_def
          strip_def isspace_def degree_sign_def)
  have u: "spec_field_value example_float (example_payload ''humidity'') ''%'' = 55"
    by (simp add: spec_field_value_def example_float_def example_payload_def get_or_def
          strip_def isspace_def degree_sign_def)
  show ?thesis
    using h r t u
      get_weather_data_degrades_per_field
        [where http_get = example_http_get and loc = "''Lagos''" and d = 100 and hour = 12
           and data = example_payload and pyfloat = example_float]
    by simp
qed

section \<open>The temperature anomaly (a.py)\<close>














end
